theory Spec2Isabelle
  imports Main
begin

section \<open>JavaScript values used by the launcher\<close>

type_synonym path = string
type_synonym bytes = "char list"

text \<open>
  \<open>a || b\<close> on values that are a string or \<open>undefined\<close>: the first operand wins unless it is
  \<open>undefined\<close> or the empty string.
\<close>

definition falsy :: "string option \<Rightarrow> bool" where
  "falsy a = (case a of None \<Rightarrow> True | Some s \<Rightarrow> s = [])"

definition js_or :: "string option \<Rightarrow> string option \<Rightarrow> string option" where
  "js_or a b = (if falsy a then b else a)"

text \<open>
  \<open>/^lit/i.test(s)\<close> for a literal of lower-case ASCII letters: without the \<open>u\<close> flag only
  the two ASCII cases of a letter match it.
\<close>

definition to_lower :: "char \<Rightarrow> char" where
  "to_lower c =
     (case map_of (zip ''ABCDEFGHIJKLMNOPQRSTUVWXYZ'' ''abcdefghijklmnopqrstuvwxyz'') c of
        None \<Rightarrow> c
      | Some l \<Rightarrow> l)"

definition test_prefix_i :: "string \<Rightarrow> string \<Rightarrow> bool" where
  "test_prefix_i lit s = (length lit \<le> length s \<and> map to_lower (take (length lit) s) = lit)"

text \<open>The decimal text of a non-negative integer, as a template literal prints it.\<close>

definition digit_char :: "nat \<Rightarrow> char" where
  "digit_char d = ''0123456789'' ! d"

fun show_nat :: "nat \<Rightarrow> string" where
  "show_nat n = (if n < 10 then [digit_char n] else show_nat (n div 10) @ [digit_char (n mod 10)])"

declare show_nat.simps [simp del]

section \<open>Data model\<close>

datatype agent = HttpProxyAgent string | HttpsProxyAgent string | SocksProxyAgent string

record URL =
  href :: string
  protocol :: string

datatype error =
    FetchError string
  | Error string
  | TypeError string
  | SystemError string
  | ZlibError string

text \<open>
  A byte stream (a response body, the output of gunzip) either delivers all its bytes, or
  delivers some and then emits an error.
\<close>

datatype byte_stream = Complete bytes | Broken bytes error

record response =
  status :: nat
  location :: "string option"
  res_url :: string
  body :: byte_stream

record request =
  req_href :: string
  req_agent :: "agent option"

record file_node =
  content :: bytes
  mode :: nat

datatype fs_op = Mkdir path | OpenWrite path | OpenRead path | Unlink path | Chmod path

datatype console_event =
    SpinnerStart string
  | SpinnerSucceed string
  | SpinnerFail string
  | ConsoleLog string
  | ConsoleError error

datatype outcome = Returned | Exited nat

text \<open>
  What the program reads but does not own: the process (platform, architecture,
  environment), the package metadata, the module's directory, and the libraries it calls
  (\<open>Path.join\<close>, the \<open>URL\<close> constructor, \<open>fetch\<close>, gunzip). \<open>new_URL\<close> is \<open>None\<close> where the
  constructor throws. \<open>fetch\<close> answers a request given the requests issued before it.
  \<open>gunzip\<close> is the decoded stream of a compressed input.
  \<open>io_error\<close> is the operating system refusing an operation (permissions, a missing
  parent directory, a full disk); \<open>create_mode\<close> is the mode of a newly created file.
\<close>

record host =
  process_platform :: string
  process_arch :: string
  process_env :: "string \<rightharpoonup> string"
  pkg_tomlTestVersion :: string
  module_dirname :: path
  path_join :: "string \<Rightarrow> string \<Rightarrow> string"
  new_URL :: "string \<Rightarrow> string option \<Rightarrow> URL option"
  fetch :: "request list \<Rightarrow> request \<Rightarrow> error + response"
  gunzip :: "bytes \<Rightarrow> byte_stream"
  io_error :: "fs_op \<Rightarrow> error option"
  create_mode :: nat

text \<open>
  What the program changes: regular files and directories, the requests sent so far, and
  what was printed.
\<close>

record world =
  files :: "path \<rightharpoonup> file_node"
  dirs :: "path set"
  requests :: "request list"
  console :: "console_event list"

section \<open>Path and URL resolver\<close>

definition DEFAULT_TOML_TEST_BINARY_HOST :: string where
  "DEFAULT_TOML_TEST_BINARY_HOST = ''https://github.com/BurntSushi/toml-test/releases/download''"

definition HELP_MESSAGE :: string where
  "HELP_MESSAGE =
     ''Please try the following solutions:'' @ [CHR 0x0A] @
     ''1. Set up a proxy'' @ [CHR 0x0A] @
     ''    export HTTP_PROXY=http://proxy.example.com:1080'' @ [CHR 0x0A] @
     ''    export HTTPS_PROXY=http://proxy.example.com:1080'' @ [CHR 0x0A] @
     ''    export ALL_PROXY=socks5://proxy.example.com:1080'' @ [CHR 0x0A] @
     ''2. Set up a mirror'' @ [CHR 0x0A] @
     ''    export TOML_TEST_BINARY_HOST=https://mirror.example.com/toml-test''"

definition binaryHost :: "host \<Rightarrow> string" where
  "binaryHost h =
     (case js_or (js_or (process_env h ''TOML_TEST_BINARY_HOST'')
                        (process_env h ''npm_config_TOML_TEST_BINARY_HOST''))
                 (Some DEFAULT_TOML_TEST_BINARY_HOST) of
        Some s \<Rightarrow> s
      | None \<Rightarrow> DEFAULT_TOML_TEST_BINARY_HOST)"

definition version :: "host \<Rightarrow> string" where
  "version h = pkg_tomlTestVersion h"

definition platform :: "host \<Rightarrow> string" where
  "platform h = (if process_platform h = ''win32'' then ''windows'' else process_platform h)"

definition arch :: "host \<Rightarrow> string" where
  "arch h = (if process_arch h = ''x64'' then ''amd64'' else process_arch h)"

definition binaryFilename :: "host \<Rightarrow> string" where
  "binaryFilename h =
     (let name = ''toml-test-v'' @ version h @ ''-'' @ platform h @ ''-'' @ arch h
      in if platform h = ''windows'' then name @ ''.ext'' else name)"

definition compressedFilename :: "host \<Rightarrow> string" where
  "compressedFilename h = binaryFilename h @ ''.gz''"

definition url :: "host \<Rightarrow> error + URL" where
  "url h =
     (case new_URL h
             (path_join h (binaryHost h) (''v'' @ version h @ ''/'' @ compressedFilename h)) None of
        None \<Rightarrow> Inl (TypeError ''Invalid URL'')
      | Some u \<Rightarrow> Inr u)"

definition distPath :: "host \<Rightarrow> path" where
  "distPath h = path_join h (module_dirname h) ''dist''"

definition binaryFilePath :: "host \<Rightarrow> path" where
  "binaryFilePath h = path_join h (distPath h) (binaryFilename h)"

definition compressedFilePath :: "host \<Rightarrow> path" where
  "compressedFilePath h = path_join h (distPath h) (compressedFilename h)"

section \<open>Proxy agent selection\<close>

text \<open>
  The constructors of the proxy-agent libraries parse their string argument with the \<open>URL\<close>
  constructor, which throws a \<open>TypeError\<close> on a string that is not a URL. The SOCKS
  constructor also throws unless the protocol of that URL, its first colon removed, is one
  of \<open>socks4\<close>, \<open>socks4a\<close>, \<open>socks5\<close>, \<open>socks\<close>, \<open>socks5h\<close>.
\<close>

definition new_HttpProxyAgent :: "host \<Rightarrow> string \<Rightarrow> error + agent" where
  "new_HttpProxyAgent h p =
     (case new_URL h p None of
        None \<Rightarrow> Inl (TypeError ''Invalid URL'')
      | Some pu \<Rightarrow> Inr (HttpProxyAgent p))"

definition new_HttpsProxyAgent :: "host \<Rightarrow> string \<Rightarrow> error + agent" where
  "new_HttpsProxyAgent h p =
     (case new_URL h p None of
        None \<Rightarrow> Inl (TypeError ''Invalid URL'')
      | Some pu \<Rightarrow> Inr (HttpsProxyAgent p))"

definition socks_protocols :: "string list" where
  "socks_protocols = [''socks4'', ''socks4a'', ''socks5'', ''socks'', ''socks5h'']"

definition new_SocksProxyAgent :: "host \<Rightarrow> string \<Rightarrow> error + agent" where
  "new_SocksProxyAgent h p =
     (case new_URL h p None of
        None \<Rightarrow> Inl (TypeError ''Invalid URL'')
      | Some pu \<Rightarrow>
          if remove1 (CHR '':'') (protocol pu) \<in> set socks_protocols then Inr (SocksProxyAgent p)
          else Inl (TypeError (''A '' @ [CHR 0x22] @ ''socks'' @ [CHR 0x22] @
                               '' protocol must be specified! Got: '' @ protocol pu)))"

text \<open>
  The three creators return \<open>null\<close> (\<open>Inr None\<close>), return the agent they constructed, or
  let the constructor's exception through (\<open>Inl\<close>).
\<close>

definition createHttpProxyAgent :: "host \<Rightarrow> error + agent option" where
  "createHttpProxyAgent h =
     (let proxyUrl = js_or (process_env h ''http_proxy'') (process_env h ''HTTP_PROXY'')
      in case proxyUrl of
           None \<Rightarrow> Inr None
         | Some p \<Rightarrow>
             if p = [] then Inr None
             else if test_prefix_i ''http'' p then map_sum id Some (new_HttpProxyAgent h p)
             else if test_prefix_i ''socks'' p then map_sum id Some (new_SocksProxyAgent h p)
             else Inr None)"

definition createHttpsProxyAgent :: "host \<Rightarrow> error + agent option" where
  "createHttpsProxyAgent h =
     (let proxyUrl = js_or (process_env h ''https_proxy'') (process_env h ''HTTPS_PROXY'')
      in case proxyUrl of
           None \<Rightarrow> Inr None
         | Some p \<Rightarrow>
             if p = [] then Inr None
             else if test_prefix_i ''http'' p then map_sum id Some (new_HttpsProxyAgent h p)
             else if test_prefix_i ''socks'' p then map_sum id Some (new_SocksProxyAgent h p)
             else Inr None)"

definition createAllProxyAgent :: "host \<Rightarrow> string \<Rightarrow> error + agent option" where
  "createAllProxyAgent h proto =
     (let proxyUrl = js_or (process_env h ''all_proxy'') (process_env h ''ALL_PROXY'')
      in case proxyUrl of
           None \<Rightarrow> Inr None
         | Some p \<Rightarrow>
             if p = [] then Inr None
             else if test_prefix_i ''http'' p then
               (if proto = ''http:'' then map_sum id Some (new_HttpProxyAgent h p)
                else if proto = ''https:'' then map_sum id Some (new_HttpsProxyAgent h p)
                else Inr None)
             else if test_prefix_i ''socks'' p then map_sum id Some (new_SocksProxyAgent h p)
             else Inr None)"

definition getAgent :: "host \<Rightarrow> URL \<Rightarrow> error + agent option" where
  "getAgent h u =
     (let agent =
        (if protocol u = ''http:'' then createHttpProxyAgent h
         else if protocol u = ''https:'' then createHttpsProxyAgent h
         else Inr None)
      in case agent of
           Inl e \<Rightarrow> Inl e
         | Inr None \<Rightarrow> createAllProxyAgent h (protocol u)
         | Inr (Some a) \<Rightarrow> Inr (Some a))"

section \<open>Fetcher\<close>

definition ok :: "response \<Rightarrow> bool" where
  "ok res = (200 \<le> status res \<and> status res < 300)"

definition js_string :: "string option \<Rightarrow> string" where
  "js_string v = (case v of None \<Rightarrow> ''null'' | Some s \<Rightarrow> s)"

definition mk_request :: "URL \<Rightarrow> agent option \<Rightarrow> request" where
  "mk_request u a = \<lparr>req_href = href u, req_agent = a\<rparr>"

text \<open>
  The agent is selected before the request is issued, so an exception of \<open>getAgent\<close> ends
  the fetch with no request sent. The redirect recursion has no bound, so the function is
  partial: \<open>None\<close> is a fetch that never settles because the server redirects for ever.
\<close>

partial_function (option) createFetch ::
  "host \<Rightarrow> URL \<Rightarrow> world \<Rightarrow> ((error + response) \<times> world) option" where
  "createFetch h u w =
     (case getAgent h u of
        Inl e \<Rightarrow> Some (Inl e, w)
      | Inr a \<Rightarrow>
          (let req = mk_request u a;
               w1 = w\<lparr>requests := requests w @ [req]\<rparr>
           in case fetch h (requests w) req of
                Inl e \<Rightarrow> Some (Inl e, w1)
              | Inr res \<Rightarrow>
                  if status res = 301 \<or> status res = 302 then
                    (case new_URL h (js_string (location res)) (Some (res_url res)) of
                       None \<Rightarrow> Some (Inl (TypeError ''Invalid URL''), w1)
                     | Some locationURL \<Rightarrow> createFetch h locationURL w1)
                  else if \<not> ok res then
                    Some (Inl (Error (''status: '' @ show_nat (status res))), w1)
                  else Some (Inr res, w1)))"

declare createFetch.simps [code]

section \<open>File system operations\<close>

definition existsSync :: "world \<Rightarrow> path \<Rightarrow> bool" where
  "existsSync w p = (files w p \<noteq> None \<or> p \<in> dirs w)"

definition mkdir :: "host \<Rightarrow> world \<Rightarrow> path \<Rightarrow> (error + unit) \<times> world" where
  "mkdir h w p =
     (if existsSync w p then (Inl (SystemError ''EEXIST''), w)
      else case io_error h (Mkdir p) of
             Some e \<Rightarrow> (Inl e, w)
           | None \<Rightarrow> (Inr (), w\<lparr>dirs := insert p (dirs w)\<rparr>))"

definition unlink :: "host \<Rightarrow> world \<Rightarrow> path \<Rightarrow> (error + unit) \<times> world" where
  "unlink h w p =
     (case files w p of
        None \<Rightarrow> (Inl (SystemError ''ENOENT''), w)
      | Some f \<Rightarrow>
          (case io_error h (Unlink p) of
             Some e \<Rightarrow> (Inl e, w)
           | None \<Rightarrow> (Inr (), w\<lparr>files := (files w)(p := None)\<rparr>)))"

definition chmod :: "host \<Rightarrow> world \<Rightarrow> path \<Rightarrow> nat \<Rightarrow> (error + unit) \<times> world" where
  "chmod h w p m =
     (case files w p of
        None \<Rightarrow> (Inl (SystemError ''ENOENT''), w)
      | Some f \<Rightarrow>
          (case io_error h (Chmod p) of
             Some e \<Rightarrow> (Inl e, w)
           | None \<Rightarrow> (Inr (), w\<lparr>files := (files w)(p \<mapsto> f\<lparr>mode := m\<rparr>)\<rparr>)))"

text \<open>
  \<open>createWriteStream p\<close> opens \<open>p\<close> for writing: the file is created, or truncated with its
  mode kept.
\<close>

definition createWriteStream :: "host \<Rightarrow> world \<Rightarrow> path \<Rightarrow> error + world" where
  "createWriteStream h w p =
     (if p \<in> dirs w then Inl (SystemError ''EISDIR'')
      else case io_error h (OpenWrite p) of
             Some e \<Rightarrow> Inl e
           | None \<Rightarrow>
               Inr (w\<lparr>files := (files w)(p \<mapsto>
                      \<lparr>content = [],
                       mode = (case files w p of None \<Rightarrow> create_mode h | Some f \<Rightarrow> mode f)\<rparr>)\<rparr>))"

definition createReadStream :: "host \<Rightarrow> world \<Rightarrow> path \<Rightarrow> error + bytes" where
  "createReadStream h w p =
     (case files w p of
        None \<Rightarrow> Inl (SystemError ''ENOENT'')
      | Some f \<Rightarrow> (case io_error h (OpenRead p) of Some e \<Rightarrow> Inl e | None \<Rightarrow> Inr (content f)))"

definition write_content :: "world \<Rightarrow> path \<Rightarrow> bytes \<Rightarrow> world" where
  "write_content w p bs =
     (case files w p of
        None \<Rightarrow> w
      | Some f \<Rightarrow> w\<lparr>files := (files w)(p \<mapsto> f\<lparr>content := bs\<rparr>)\<rparr>)"

section \<open>Cache manager and decompressor\<close>

definition ensureDistExists :: "host \<Rightarrow> world \<Rightarrow> world" where
  "ensureDistExists h w = snd (mkdir h w (distPath h))"

text \<open>
  \<open>res.body.pipe(ws)\<close> awaited: the stream's own error (the file could not be opened), the
  body's error after the bytes it delivered were written, or completion.
\<close>

definition pipe_body :: "host \<Rightarrow> world \<Rightarrow> path \<Rightarrow> byte_stream \<Rightarrow> (error + unit) \<times> world" where
  "pipe_body h w p b =
     (case createWriteStream h w p of
        Inl e \<Rightarrow> (Inl e, w)
      | Inr w1 \<Rightarrow>
          (case b of
             Complete bs \<Rightarrow> (Inr (), write_content w1 p bs)
           | Broken bs e \<Rightarrow> (Inl e, write_content w1 p bs)))"

text \<open>
  Both streams are opened before either reports: an error of the read stream leaves the
  output file created and empty. An error of gunzip leaves in it the bytes decoded before
  the error.
\<close>

definition decompress :: "host \<Rightarrow> world \<Rightarrow> (error + unit) \<times> world" where
  "decompress h w =
     (let rs = createReadStream h w (compressedFilePath h);
          ws = createWriteStream h w (binaryFilePath h);
          w1 = (case ws of Inl e \<Rightarrow> w | Inr w' \<Rightarrow> w')
      in case rs of
           Inl e \<Rightarrow> (Inl e, w1)
         | Inr bs \<Rightarrow>
             (case ws of
                Inl e \<Rightarrow> (Inl e, w1)
              | Inr w' \<Rightarrow>
                  (case gunzip h bs of
                     Broken out e \<Rightarrow> (Inl e, write_content w1 (binaryFilePath h) out)
                   | Complete out \<Rightarrow> (Inr (), write_content w1 (binaryFilePath h) out))))"

definition download :: "host \<Rightarrow> world \<Rightarrow> ((error + unit) \<times> world) option" where
  "download h w =
     (case url h of
        Inl e \<Rightarrow> Some (Inl e, w)
      | Inr u \<Rightarrow>
          (case createFetch h u w of
             None \<Rightarrow> None
           | Some (Inl e, w1) \<Rightarrow> Some (Inl e, w1)
           | Some (Inr res, w1) \<Rightarrow>
               (case pipe_body h (ensureDistExists h w1) (compressedFilePath h) (body res) of
                  (Inl e, w2) \<Rightarrow> Some (Inl e, w2)
                | (Inr _, w2) \<Rightarrow>
                    (case decompress h w2 of
                       (Inl e, w3) \<Rightarrow> Some (Inl e, w3)
                     | (Inr _, w3) \<Rightarrow>
                         (case chmod h w3 (binaryFilePath h) 755 of
                            (Inl e, w4) \<Rightarrow> Some (Inl e, w4)
                          | (Inr _, w4) \<Rightarrow> Some (Inr (), w4))))))"

definition is_FetchError :: "error \<Rightarrow> bool" where
  "is_FetchError e = (case e of FetchError _ \<Rightarrow> True | _ \<Rightarrow> False)"

definition print :: "world \<Rightarrow> console_event list \<Rightarrow> world" where
  "print w out = w\<lparr>console := console w @ out\<rparr>"

definition ensureBinaryFileExists :: "host \<Rightarrow> world \<Rightarrow> (outcome \<times> world) option" where
  "ensureBinaryFileExists h w =
     (if existsSync w (binaryFilePath h) then Some (Returned, w)
      else
        (case download h (print w [SpinnerStart ''Downloading toml-test binary'']) of
           None \<Rightarrow> None
         | Some (Inr _, w1) \<Rightarrow>
             Some (Returned, print w1 [SpinnerSucceed ''Download tom-test binary success''])
         | Some (Inl e, w1) \<Rightarrow>
             (let w2 = snd (unlink h w1 (binaryFilePath h));
                  w3 = snd (unlink h w2 (compressedFilePath h));
                  w4 = (if is_FetchError e
                        then print w3 [SpinnerFail ''Download toml-test binary failed'',
                                       ConsoleLog HELP_MESSAGE]
                        else print w3 [ConsoleError e])
              in Some (Exited 1, w4))))"

section \<open>Vocabulary of the specification\<close>

text \<open>
  A redirect chain of depth \<open>n\<close> starting at \<open>u\<close>, as the fetcher meets it: \<open>n\<close> responses
  with status 301 or 302, each with a \<open>Location\<close> that resolves against that response's
  URL, followed by one response that is not a redirect; every request of the chain is
  sent with the agent selected for its URL, so the selection succeeds at every hop. The
  result is the last response and the hops in order, each a URL with its agent.
\<close>

fun redirect_chain ::
  "host \<Rightarrow> nat \<Rightarrow> URL \<Rightarrow> request list \<Rightarrow> (response \<times> (URL \<times> agent option) list) option" where
  "redirect_chain h 0 u hist =
     (case getAgent h u of
        Inl e \<Rightarrow> None
      | Inr a \<Rightarrow>
          (case fetch h hist (mk_request u a) of
             Inl e \<Rightarrow> None
           | Inr res \<Rightarrow>
               if status res = 301 \<or> status res = 302 then None else Some (res, [(u, a)])))"
| "redirect_chain h (Suc n) u hist =
     (case getAgent h u of
        Inl e \<Rightarrow> None
      | Inr a \<Rightarrow>
          (case fetch h hist (mk_request u a) of
             Inl e \<Rightarrow> None
           | Inr res \<Rightarrow>
               if status res = 301 \<or> status res = 302 then
                 (case new_URL h (js_string (location res)) (Some (res_url res)) of
                    None \<Rightarrow> None
                  | Some u' \<Rightarrow>
                      (case redirect_chain h n u' (hist @ [mk_request u a]) of
                         None \<Rightarrow> None
                       | Some (r, hops) \<Rightarrow> Some (r, (u, a) # hops)))
               else None))"

definition hop_request :: "URL \<times> agent option \<Rightarrow> request" where
  "hop_request hop = mk_request (fst hop) (snd hop)"






text \<open>Permission bits: \<open>rwxr-xr-x\<close> is octal 755.\<close>

definition rwxr_xr_x :: nat where
  "rwxr_xr_x = 7 * 8 * 8 + 5 * 8 + 5"

definition permission_bits :: "nat \<Rightarrow> nat" where
  "permission_bits m = m mod 512"

definition group_may_execute :: "nat \<Rightarrow> bool" where
  "group_may_execute m = odd (m div 8)"

section \<open>Example hosts\<close>

definition example_new_URL :: "string \<Rightarrow> string option \<Rightarrow> URL option" where
  "example_new_URL s base =
     (let scheme = takeWhile (\<lambda>c. c \<noteq> CHR '':'') s;
          rest = dropWhile (\<lambda>c. c \<noteq> CHR '':'') s
      in if scheme \<noteq> [] \<and> take 3 rest = ''://'' \<and> 3 < length rest
         then Some \<lparr>href = s, protocol = map to_lower scheme @ '':''\<rparr>
         else None)"

definition example_fetch :: "request list \<Rightarrow> request \<Rightarrow> error + response" where
  "example_fetch hist req =
     (if req_href req =
         ''https://github.com/BurntSushi/toml-test/releases/download/v1.4.0/toml-test-v1.4.0-linux-amd64.gz''
      then Inr \<lparr>status = 302, location = Some ''http://mirror.example.com/toml-test.gz'',
                res_url = req_href req, body = Complete []\<rparr>
      else if req_href req = ''http://mirror.example.com/toml-test.gz''
      then Inr \<lparr>status = 200, location = None, res_url = req_href req,
                body = Complete ''gzELF''\<rparr>
      else Inr \<lparr>status = 404, location = None, res_url = req_href req,
                body = Complete ''Not Found''\<rparr>)"

definition example_gunzip :: "bytes \<Rightarrow> byte_stream" where
  "example_gunzip bs =
     (if take 2 bs = ''gz'' then Complete (drop 2 bs)
      else Broken [] (ZlibError ''incorrect header check''))"

definition example_host :: host where
  "example_host =
     \<lparr>process_platform = ''linux'', process_arch = ''x64'', process_env = Map.empty,
      pkg_tomlTestVersion = ''1.4.0'', module_dirname = ''/pkg'',
      path_join = (\<lambda>a b. a @ ''/'' @ b), new_URL = example_new_URL,
      fetch = example_fetch, gunzip = example_gunzip, io_error = (\<lambda>_. None),
      create_mode = 420\<rparr>"

definition example_world :: world where
  "example_world = \<lparr>files = Map.empty, dirs = {''/pkg''}, requests = [], console = []\<rparr>"

definition cached_world :: world where
  "cached_world =
     example_world\<lparr>files := [''/pkg/dist/toml-test-v1.4.0-linux-amd64'' \<mapsto>
                                \<lparr>content = ''ELF'', mode = 493\<rparr>],
                    dirs := {''/pkg'', ''/pkg/dist''}\<rparr>"

definition proxy_host :: "(string \<rightharpoonup> string) \<Rightarrow> host" where
  "proxy_host e = example_host\<lparr>process_env := e\<rparr>"

definition http_target :: URL where
  "http_target = \<lparr>href = ''http://mirror.example.com/toml-test.gz'', protocol = ''http:''\<rparr>"


definition github_url :: URL where
  "github_url =
     \<lparr>href = ''https://github.com/BurntSushi/toml-test/releases/download/v1.4.0/toml-test-v1.4.0-linux-amd64.gz'',
      protocol = ''https:''\<rparr>"

definition mirror_response :: response where
  "mirror_response =
     \<lparr>status = 200, location = None, res_url = ''http://mirror.example.com/toml-test.gz'',
      body = Complete ''gzELF''\<rparr>"

definition example_installed :: world where
  "example_installed =
     \<lparr>files = [''/pkg/dist/toml-test-v1.4.0-linux-amd64.gz'' \<mapsto> \<lparr>content = ''gzELF'', mode = 420\<rparr>,
               ''/pkg/dist/toml-test-v1.4.0-linux-amd64'' \<mapsto> \<lparr>content = ''ELF'', mode = 755\<rparr>],
      dirs = {''/pkg/dist'', ''/pkg''},
      requests = [\<lparr>req_href = href github_url, req_agent = None\<rparr>,
                  \<lparr>req_href = href http_target, req_agent = None\<rparr>],
      console = []\<rparr>"

definition corrupt_host :: host where
  "corrupt_host =
     example_host\<lparr>gunzip := (\<lambda>_. Broken ''EL'' (ZlibError ''unexpected end of file''))\<rparr>"

definition offline_host :: host where
  "offline_host =
     example_host\<lparr>fetch := (\<lambda>_ _. Inl (FetchError ''request failed, reason: connect ECONNREFUSED''))\<rparr>"

definition arm_host :: host where
  "arm_host = example_host\<lparr>process_arch := ''arm64''\<rparr>"

definition arm_url :: URL where
  "arm_url =
     \<lparr>href = ''https://github.com/BurntSushi/toml-test/releases/download/v1.4.0/toml-test-v1.4.0-linux-arm64.gz'',
      protocol = ''https:''\<rparr>"

definition not_found :: response where
  "not_found =
     \<lparr>status = 404, location = None, res_url = href arm_url, body = Complete ''Not Found''\<rparr>"

definition spinner_started :: world where
  "spinner_started = print example_world [SpinnerStart ''Downloading toml-test binary'']"

definition corrupt_partial :: world where
  "corrupt_partial =
     \<lparr>files = [''/pkg/dist/toml-test-v1.4.0-linux-amd64.gz'' \<mapsto> \<lparr>content = ''gzELF'', mode = 420\<rparr>,
               ''/pkg/dist/toml-test-v1.4.0-linux-amd64'' \<mapsto> \<lparr>content = ''EL'', mode = 420\<rparr>],
      dirs = {''/pkg/dist'', ''/pkg''},
      requests = [\<lparr>req_href = href github_url, req_agent = None\<rparr>,
                  \<lparr>req_href = href http_target, req_agent = None\<rparr>],
      console = [SpinnerStart ''Downloading toml-test binary'']\<rparr>"

definition example_succeeded :: world where
  "example_succeeded =
     \<lparr>files = [''/pkg/dist/toml-test-v1.4.0-linux-amd64.gz'' \<mapsto> \<lparr>content = ''gzELF'', mode = 420\<rparr>,
               ''/pkg/dist/toml-test-v1.4.0-linux-amd64'' \<mapsto> \<lparr>content = ''ELF'', mode = 755\<rparr>],
      dirs = {''/pkg/dist'', ''/pkg''},
      requests = [\<lparr>req_href = href github_url, req_agent = None\<rparr>,
                  \<lparr>req_href = href http_target, req_agent = None\<rparr>],
      console = [SpinnerStart ''Downloading toml-test binary'',
                 SpinnerSucceed ''Download tom-test binary success'']\<rparr>"







section \<open>The fetcher follows a redirect chain\<close>

lemma createFetch_frame_snd:
  assumes run: "createFetch h u w = Some y"
  shows "files (snd y) = files w \<and> dirs (snd y) = dirs w \<and> console (snd y) = console w"
proof (rule createFetch.raw_induct
    [where P = "\<lambda>h u w y. files (snd y) = files w \<and> dirs (snd y) = dirs w \<and>
                   console (snd y) = console w", OF _ run])
  fix cf :: "host \<Rightarrow> URL \<Rightarrow> world \<Rightarrow> ((error + response) \<times> world) option"
  fix h :: host and u :: URL and w :: world and y :: "(error + response) \<times> world"
  assume IH: "\<And>h u w y. cf h u w = Some y \<Longrightarrow>
    files (snd y) = files w \<and> dirs (snd y) = dirs w \<and> console (snd y) = console w"
  assume body: "(case getAgent h u of
        Inl e \<Rightarrow> Some (Inl e, w)
      | Inr a \<Rightarrow>
          (let req = mk_request u a;
               w1 = w\<lparr>requests := requests w @ [req]\<rparr>
           in case fetch h (requests w) req of
                Inl e \<Rightarrow> Some (Inl e, w1)
              | Inr res \<Rightarrow>
                  if status res = 301 \<or> status res = 302 then
                    (case new_URL h (js_string (location res)) (Some (res_url res)) of
                       None \<Rightarrow> Some (Inl (TypeError ''Invalid URL''), w1)
                     | Some locationURL \<Rightarrow> cf h locationURL w1)
                  else if \<not> ok res then
                    Some (Inl (Error (''status: '' @ show_nat (status res))), w1)
                  else Some (Inr res, w1))) = Some y"
  then have "snd y = w \<or> (\<exists>rs. snd y = w\<lparr>requests := rs\<rparr>) \<or>
      (\<exists>u' rs. cf h u' (w\<lparr>requests := rs\<rparr>) = Some y)"
    by (auto simp: Let_def split: sum.splits if_splits option.splits)
  then consider "snd y = w" | rs where "snd y = w\<lparr>requests := rs\<rparr>"
    | u' rs where "cf h u' (w\<lparr>requests := rs\<rparr>) = Some y"
    by blast
  then show "files (snd y) = files w \<and> dirs (snd y) = dirs w \<and> console (snd y) = console w"
  proof cases
    case 1
    then show ?thesis by simp
  next
    case 2
    then show ?thesis by simp
  next
    case 3
    from IH [OF this] show ?thesis by simp
  qed
qed

lemma createFetch_frame:
  "createFetch h u w = Some (r, w') \<Longrightarrow>
     files w' = files w \<and> dirs w' = dirs w \<and> console w' = console w"
  using createFetch_frame_snd [of h u w "(r, w')"] by simp

lemma createFetch_chain:
  "redirect_chain h n u (requests w) = Some (res, hops) \<Longrightarrow>
     createFetch h u w =
       Some (if ok res then Inr res else Inl (Error (''status: '' @ show_nat (status res))),
             w\<lparr>requests := requests w @ map hop_request hops\<rparr>)
     \<and> length hops = Suc n \<and> list_all (\<lambda>hop. getAgent h (fst hop) = Inr (snd hop)) hops"
proof (induction n arbitrary: u w hops)
  case 0
  then show ?case
    by (subst createFetch.simps)
       (auto simp: Let_def hop_request_def split: sum.splits if_splits)
next
  case (Suc n)
  from Suc.prems obtain a where agent: "getAgent h u = Inr a"
    by (auto split: sum.splits)
  show ?case
  proof (cases "fetch h (requests w) (mk_request u a)")
    case (Inl e)
    with Suc.prems agent show ?thesis by simp
  next
    case (Inr r1)
    with Suc.prems agent have redir: "status r1 = 301 \<or> status r1 = 302"
      by (auto split: if_splits)
    with Suc.prems agent Inr obtain u' where
      loc: "new_URL h (js_string (location r1)) (Some (res_url r1)) = Some u'"
      by (auto split: option.splits)
    with Suc.prems agent Inr redir obtain hops' where
      rest: "redirect_chain h n u' (requests w @ [mk_request u a]) = Some (res, hops')"
      and hops: "hops = (u, a) # hops'"
      by (auto split: option.splits)
    let ?w1 = "w\<lparr>requests := requests w @ [mk_request u a]\<rparr>"
    from rest have "redirect_chain h n u' (requests ?w1) = Some (res, hops')" by simp
    from Suc.IH [OF this] have
      step: "createFetch h u' ?w1 =
               Some (if ok res then Inr res else Inl (Error (''status: '' @ show_nat (status res))),
                     ?w1\<lparr>requests := requests ?w1 @ map hop_request hops'\<rparr>)"
      and len: "length hops' = Suc n"
      and sel: "list_all (\<lambda>hop. getAgent h (fst hop) = Inr (snd hop)) hops'" by simp_all
    have "createFetch h u w = createFetch h u' ?w1"
      using agent Inr redir loc by (subst createFetch.simps) (auto simp: Let_def)
    with step len sel hops agent show ?thesis by (simp add: hop_request_def)
  qed
qed

section \<open>Path and URL resolver: the binary's file name\<close>

lemma example_paths:
  "binaryFilePath example_host = ''/pkg/dist/toml-test-v1.4.0-linux-amd64''"
  "compressedFilePath example_host = ''/pkg/dist/toml-test-v1.4.0-linux-amd64.gz''"
  by (simp_all add: binaryFilePath_def compressedFilePath_def compressedFilename_def distPath_def
      binaryFilename_def platform_def arch_def version_def example_host_def)

text \<open>
  Claim C8. For every version, platform and architecture the binary's file name is
  \<open>toml-test-v{version}-{platform}-{arch}\<close>: a platform reported as \<open>win32\<close> becomes
  \<open>windows\<close> and an architecture reported as \<open>x64\<close> becomes \<open>amd64\<close>, every other report
  passes through unchanged, \<open>.ext\<close> is appended exactly when the platform is \<open>windows\<close>,
  and the name depends on nothing but the three inputs.
\<close>

theorem binaryFilename_format:
  "(process_platform h = ''win32'' \<longrightarrow> platform h = ''windows'')
   \<and> (process_platform h \<noteq> ''win32'' \<longrightarrow> platform h = process_platform h)
   \<and> (process_arch h = ''x64'' \<longrightarrow> arch h = ''amd64'')
   \<and> (process_arch h \<noteq> ''x64'' \<longrightarrow> arch h = process_arch h)
   \<and> (platform h = ''windows'' \<longrightarrow>
        binaryFilename h =
          ''toml-test-v'' @ pkg_tomlTestVersion h @ ''-'' @ platform h @ ''-'' @ arch h @ ''.ext'')
   \<and> (platform h \<noteq> ''windows'' \<longrightarrow>
        binaryFilename h =
          ''toml-test-v'' @ pkg_tomlTestVersion h @ ''-'' @ platform h @ ''-'' @ arch h)
   \<and> (pkg_tomlTestVersion h = pkg_tomlTestVersion h' \<and>
        process_platform h = process_platform h' \<and> process_arch h = process_arch h' \<longrightarrow>
        binaryFilename h = binaryFilename h')"
  by (simp add: binaryFilename_def platform_def arch_def version_def)

theorem binaryFilename_format_witness:
  "binaryFilename (example_host\<lparr>process_platform := ''win32''\<rparr>) =
     ''toml-test-v1.4.0-windows-amd64.ext''
   \<and> binaryFilename example_host = ''toml-test-v1.4.0-linux-amd64''
   \<and> binaryFilename (example_host\<lparr>process_arch := ''arm64'', process_env := [''HOME'' \<mapsto> ''/root'']\<rparr>) =
       binaryFilename (example_host\<lparr>process_arch := ''arm64''\<rparr>)"
proof -
  let ?win = "example_host\<lparr>process_platform := ''win32''\<rparr>"
  let ?arm = "example_host\<lparr>process_arch := ''arm64''\<rparr>"
  let ?arm' = "example_host\<lparr>process_arch := ''arm64'', process_env := [''HOME'' \<mapsto> ''/root'']\<rparr>"
  have win: "process_platform ?win = ''win32''" and x64: "process_arch ?win = ''x64''"
    by (simp_all add: example_host_def)
  have lin: "process_platform example_host \<noteq> ''win32''" and x64': "process_arch example_host = ''x64''"
    by (simp_all add: example_host_def)
  note W = binaryFilename_format [of ?win ?win]
  note L = binaryFilename_format [of example_host example_host]
  note A = binaryFilename_format [of ?arm' ?arm]
  have "platform ?win = ''windows''" using W win by blast
  moreover have "arch ?win = ''amd64''" using W x64 by blast
  ultimately have 1: "binaryFilename ?win = ''toml-test-v1.4.0-windows-amd64.ext''"
    using W by (simp add: example_host_def)
  have "platform example_host = ''linux''" using L lin by (simp add: example_host_def)
  moreover have "arch example_host = ''amd64''" using L x64' by blast
  ultimately have 2: "binaryFilename example_host = ''toml-test-v1.4.0-linux-amd64''"
    using L by (simp add: example_host_def)
  have 3: "binaryFilename ?arm' = binaryFilename ?arm"
    using A by (simp add: example_host_def)
  from 1 2 3 show ?thesis by simp
qed

section \<open>Cache manager: the fast path\<close>

text \<open>
  Claim C9. When the local binary file already exists, \<open>ensureBinaryFileExists\<close> returns at
  once: no request is sent, and files, directories and console are as they were.
\<close>

theorem ensureBinaryFileExists_fast_path:
  "existsSync w (binaryFilePath h) \<Longrightarrow> ensureBinaryFileExists h w = Some (Returned, w)"
  by (simp add: ensureBinaryFileExists_def)

theorem ensureBinaryFileExists_fast_path_witness:
  "existsSync cached_world (binaryFilePath example_host)
   \<and> ensureBinaryFileExists example_host cached_world = Some (Returned, cached_world)
   \<and> requests cached_world = []"
proof -
  have ex: "existsSync cached_world (binaryFilePath example_host)"
    by (simp add: existsSync_def cached_world_def example_paths)
  from ensureBinaryFileExists_fast_path [OF ex] ex show ?thesis
    by (simp add: cached_world_def example_world_def)
qed

section \<open>Proxy agent selection\<close>





lemmas agent_eval = getAgent_def createHttpProxyAgent_def createHttpsProxyAgent_def
  createAllProxyAgent_def new_HttpProxyAgent_def new_HttpsProxyAgent_def
  new_SocksProxyAgent_def socks_protocols_def test_prefix_i_def to_lower_def mk_request_def
  js_string_def hop_request_def js_or_def falsy_def







section \<open>What each stage leaves untouched\<close>

lemma print_simps [simp]:
  "files (print w out) = files w" "dirs (print w out) = dirs w"
  "requests (print w out) = requests w" "console (print w out) = console w @ out"
  by (simp_all add: print_def)

lemma existsSync_print [simp]: "existsSync (print w out) p = existsSync w p"
  by (simp add: existsSync_def)

lemma unlink_snd:
  "files (snd (unlink h w p)) =
     (if files w p \<noteq> None \<and> io_error h (Unlink p) = None then (files w)(p := None) else files w)"
  "dirs (snd (unlink h w p)) = dirs w"
  "requests (snd (unlink h w p)) = requests w"
  "console (snd (unlink h w p)) = console w"
  by (auto simp: unlink_def split: option.splits)

lemma ensureDistExists_frame [simp]:
  "files (ensureDistExists h w) = files w" "console (ensureDistExists h w) = console w"
  "requests (ensureDistExists h w) = requests w"
  by (auto simp: ensureDistExists_def mkdir_def split: option.splits)

lemma write_content_frame [simp]:
  "console (write_content w p bs) = console w" "dirs (write_content w p bs) = dirs w"
  "requests (write_content w p bs) = requests w"
  "(files (write_content w p bs) q = None) = (files w q = None)"
  "(\<exists>y. files (write_content w p bs) q = Some y) = (\<exists>y. files w q = Some y)"
  by (auto simp: write_content_def split: option.splits)

lemma createWriteStream_frame:
  "createWriteStream h w p = Inr w' \<Longrightarrow>
     console w' = console w \<and> dirs w' = dirs w \<and> requests w' = requests w \<and>
     files w' p \<noteq> None \<and> (files w q \<noteq> None \<longrightarrow> files w' q \<noteq> None)"
  by (auto simp: createWriteStream_def split: if_splits option.splits)

lemma pipe_body_frame:
  "pipe_body h w p b = (r, w') \<Longrightarrow>
     console w' = console w \<and> (files w q \<noteq> None \<longrightarrow> files w' q \<noteq> None)"
  by (auto simp: pipe_body_def split: sum.splits byte_stream.splits
      dest!: createWriteStream_frame [where q = q])

lemma pipe_body_written:
  "pipe_body h w p b = (Inr x, w') \<Longrightarrow> files w' p \<noteq> None"
  by (auto simp: pipe_body_def split: sum.splits byte_stream.splits
      dest!: createWriteStream_frame [where q = p])

lemma decompress_frame:
  "decompress h w = (r, w') \<Longrightarrow>
     console w' = console w \<and> (files w q \<noteq> None \<longrightarrow> files w' q \<noteq> None)"
  by (auto simp: decompress_def Let_def split: sum.splits option.splits byte_stream.splits
      dest!: createWriteStream_frame [where q = q])

lemma chmod_frame:
  "chmod h w p m = (r, w') \<Longrightarrow>
     console w' = console w \<and> (files w q \<noteq> None \<longrightarrow> files w' q \<noteq> None)"
  by (auto simp: chmod_def split: option.splits)

lemma chmod_mode:
  "chmod h w p m = (Inr x, w') \<Longrightarrow> \<exists>f. files w' p = Some f \<and> mode f = m"
  by (auto simp: chmod_def split: option.splits)

text \<open>A successful download went through every stage.\<close>

lemma download_success_stages:
  assumes "download h w = Some (Inr x, w')"
  shows "\<exists>u res w1 w2 w3.
           url h = Inr u \<and> createFetch h u w = Some (Inr res, w1) \<and>
           pipe_body h (ensureDistExists h w1) (compressedFilePath h) (body res) = (Inr (), w2) \<and>
           decompress h w2 = (Inr (), w3) \<and>
           chmod h w3 (binaryFilePath h) 755 = (Inr (), w')"
  using assms
  by (auto simp: download_def split: sum.splits option.splits prod.splits)

lemma download_console:
  assumes "download h w = Some (r, w')"
  shows "console w' = console w"
proof -
  from assms consider
      (url) "w' = w"
    | (fetch) u e where "createFetch h u w = Some (Inl e, w')"
    | (pipe) u res w1 e where "createFetch h u w = Some (Inr res, w1)"
        "pipe_body h (ensureDistExists h w1) (compressedFilePath h) (body res) = (Inl e, w')"
    | (gunzip) u res w1 w2 e x where "createFetch h u w = Some (Inr res, w1)"
        "pipe_body h (ensureDistExists h w1) (compressedFilePath h) (body res) = (Inr x, w2)"
        "decompress h w2 = (Inl e, w')"
    | (chmod) u res w1 w2 w3 x y z where "createFetch h u w = Some (Inr res, w1)"
        "pipe_body h (ensureDistExists h w1) (compressedFilePath h) (body res) = (Inr x, w2)"
        "decompress h w2 = (Inr y, w3)"
        "chmod h w3 (binaryFilePath h) 755 = (z, w')"
    by (auto simp: download_def split: sum.splits option.splits prod.splits)
  then show ?thesis
  proof cases
    case url
    then show ?thesis by simp
  next
    case fetch
    then show ?thesis using createFetch_frame by blast
  next
    case pipe
    then show ?thesis
      using createFetch_frame [of h u w "Inr res" w1] pipe_body_frame [OF pipe(2)] by simp
  next
    case gunzip
    then show ?thesis
      using createFetch_frame [of h u w "Inr res" w1] pipe_body_frame [OF gunzip(2)]
        decompress_frame [OF gunzip(3)] by simp
  next
    case chmod
    then show ?thesis
      using createFetch_frame [of h u w "Inr res" w1] pipe_body_frame [OF chmod(2)]
        decompress_frame [OF chmod(3)] chmod_frame [OF chmod(4)] by simp
  qed
qed

lemma download_status_failure:
  assumes "url h = Inr u" and "redirect_chain h n u (requests w) = Some (res, hops)"
    and "\<not> ok res"
  shows "download h w =
           Some (Inl (Error (''status: '' @ show_nat (status res))),
                 w\<lparr>requests := requests w @ map hop_request hops\<rparr>)"
  using createFetch_chain [OF assms(2)] assms(1,3) by (simp add: download_def)


section \<open>Example runs\<close>

lemmas resolver_eval = url_def binaryHost_def DEFAULT_TOML_TEST_BINARY_HOST_def version_def
  compressedFilename_def binaryFilename_def platform_def arch_def distPath_def binaryFilePath_def
  compressedFilePath_def js_or_def falsy_def

lemmas fs_eval = existsSync_def mkdir_def unlink_def chmod_def createWriteStream_def
  createReadStream_def write_content_def ensureDistExists_def pipe_body_def decompress_def

lemmas example_eval = example_host_def example_world_def example_fetch_def example_new_URL_def
  example_gunzip_def github_url_def http_target_def mirror_response_def proxy_host_def
  to_lower_def

lemma example_url: "url example_host = Inr github_url"
  by (simp add: resolver_eval example_eval)

lemma example_chain:
  "redirect_chain example_host (Suc 0) github_url [] =
     Some (mirror_response, [(github_url, None), (http_target, None)])"
  by (simp add: agent_eval example_eval)

lemma example_createFetch:
  "createFetch example_host github_url example_world =
     Some (Inr mirror_response,
           example_world\<lparr>requests := [mk_request github_url None,
                                       mk_request http_target None]\<rparr>)"
proof -
  have "redirect_chain example_host (Suc 0) github_url (requests example_world) =
          Some (mirror_response, [(github_url, None), (http_target, None)])"
    using example_chain by (simp add: example_world_def)
  from createFetch_chain [OF this] show ?thesis
    by (simp add: ok_def mirror_response_def example_world_def hop_request_def)
qed

lemma example_download:
  "download example_host example_world = Some (Inr (), example_installed)"
  by (simp add: download_def example_url example_createFetch)
     (simp add: resolver_eval agent_eval fs_eval example_eval example_installed_def)

lemmas host_eval = corrupt_host_def offline_host_def arm_host_def arm_url_def not_found_def
  spinner_started_def print_def

lemma corrupt_download:
  "download corrupt_host spinner_started =
     Some (Inl (ZlibError ''unexpected end of file''), corrupt_partial)"
proof -
  have u: "url corrupt_host = Inr github_url"
    by (simp add: resolver_eval example_eval host_eval)
  have "redirect_chain corrupt_host (Suc 0) github_url (requests spinner_started) =
          Some (mirror_response, [(github_url, None), (http_target, None)])"
    by (simp add: agent_eval example_eval host_eval)
  from createFetch_chain [OF this] have
    "createFetch corrupt_host github_url spinner_started =
       Some (Inr mirror_response,
             spinner_started\<lparr>requests := [mk_request github_url None,
                                           mk_request http_target None]\<rparr>)"
    by (simp add: ok_def mirror_response_def spinner_started_def example_world_def hop_request_def)
  then show ?thesis
    by (simp add: download_def u)
       (simp add: resolver_eval agent_eval fs_eval example_eval host_eval corrupt_partial_def)
qed

lemma arm_url: "url arm_host = Inr arm_url"
  by (simp add: resolver_eval example_eval host_eval)

lemma arm_chain: "redirect_chain arm_host 0 arm_url [] = Some (not_found, [(arm_url, None)])"
  by (simp add: agent_eval example_eval host_eval)

lemma offline_download:
  "download offline_host spinner_started =
     Some (Inl (FetchError ''request failed, reason: connect ECONNREFUSED''),
           spinner_started\<lparr>requests := [\<lparr>req_href = href github_url, req_agent = None\<rparr>]\<rparr>)"
proof -
  have u: "url offline_host = Inr github_url"
    by (simp add: resolver_eval example_eval host_eval)
  have "createFetch offline_host github_url spinner_started =
     Some (Inl (FetchError ''request failed, reason: connect ECONNREFUSED''),
           spinner_started\<lparr>requests := [\<lparr>req_href = href github_url, req_agent = None\<rparr>]\<rparr>)"
    by (subst createFetch.simps) (simp add: resolver_eval agent_eval example_eval host_eval)
  then show ?thesis by (simp add: download_def u)
qed

lemma example_ensure:
  "ensureBinaryFileExists example_host example_world = Some (Returned, example_succeeded)"
proof -
  have u: "url example_host = Inr github_url" by (rule example_url)
  have "redirect_chain example_host (Suc 0) github_url (requests spinner_started) =
          Some (mirror_response, [(github_url, None), (http_target, None)])"
    using example_chain by (simp add: host_eval example_world_def)
  from createFetch_chain [OF this] have
    "createFetch example_host github_url spinner_started =
       Some (Inr mirror_response,
             spinner_started\<lparr>requests := [mk_request github_url None,
                                           mk_request http_target None]\<rparr>)"
    by (simp add: ok_def mirror_response_def spinner_started_def example_world_def hop_request_def)
  then have "download example_host spinner_started =
               Some (Inr (), example_succeeded\<lparr>console := [SpinnerStart ''Downloading toml-test binary'']\<rparr>)"
    by (simp add: download_def u)
       (simp add: resolver_eval agent_eval fs_eval example_eval host_eval example_succeeded_def)
  then show ?thesis
    by (simp add: ensureBinaryFileExists_def spinner_started_def [symmetric])
       (simp add: resolver_eval fs_eval example_eval print_def example_succeeded_def)
qed


section \<open>Fetcher: redirects and failing statuses\<close>




text \<open>
  Claim C7. When the response that ends the redirects has a status outside the success
  range, the fetcher fails with an error whose message carries that status, and the
  download stops there: only the request log has changed, no file or directory has.
\<close>

theorem status_failure_writes_nothing:
  assumes "url h = Inr u"
    and "redirect_chain h n u (requests w) = Some (res, hops)"
    and "\<not> ok res"
  shows "\<exists>w'. createFetch h u w = Some (Inl (Error (''status: '' @ show_nat (status res))), w') \<and>
           download h w = Some (Inl (Error (''status: '' @ show_nat (status res))), w') \<and>
           files w' = files w \<and> dirs w' = dirs w"
  using createFetch_chain [OF assms(2)] download_status_failure [OF assms] assms(3)
  by simp

theorem status_failure_writes_nothing_witness:
  "\<exists>w'. createFetch arm_host arm_url example_world = Some (Inl (Error ''status: 404''), w') \<and>
        download arm_host example_world = Some (Inl (Error ''status: 404''), w') \<and>
        files w' = Map.empty \<and> dirs w' = {''/pkg''}"
proof -
  have chain: "redirect_chain arm_host 0 arm_url (requests example_world) =
                 Some (not_found, [(arm_url, None)])"
    using arm_chain by (simp add: example_world_def)
  have bad: "\<not> ok not_found" by (simp add: ok_def not_found_def)
  from status_failure_writes_nothing [OF arm_url chain bad] show ?thesis
    by (simp add: not_found_def show_nat.simps digit_char_def example_world_def)
qed


section \<open>Cache manager: failures\<close>

text \<open>
  Claim C2, as the code has it. Every acquisition failure ends the process with status 1,
  and the remediation hints are printed exactly when the caught error is a \<open>FetchError\<close>
  of the fetch library. A non-success HTTP status is raised as a plain \<open>Error\<close> carrying
  the status, so it takes the raw-error path: the error is printed, the hints are not.
\<close>

theorem failure_report:
  "(\<not> existsSync w (binaryFilePath h) \<and>
    download h (print w [SpinnerStart ''Downloading toml-test binary'']) = Some (Inl e, v) \<longrightarrow>
      (\<exists>w2. ensureBinaryFileExists h w = Some (Exited 1, w2) \<and>
            console w2 =
              console w @ [SpinnerStart ''Downloading toml-test binary''] @
              (if is_FetchError e
               then [SpinnerFail ''Download toml-test binary failed'', ConsoleLog HELP_MESSAGE]
               else [ConsoleError e])))
   \<and> (\<not> existsSync w (binaryFilePath h) \<and> url h = Inr u \<and>
      redirect_chain h n u (requests w) = Some (res, hops) \<and> \<not> ok res \<longrightarrow>
      (\<exists>w2. ensureBinaryFileExists h w = Some (Exited 1, w2) \<and>
            console w2 =
              console w @ [SpinnerStart ''Downloading toml-test binary'',
                           ConsoleError (Error (''status: '' @ show_nat (status res)))]))"
proof -
  let ?start = "[SpinnerStart ''Downloading toml-test binary'']"
  have report: "\<exists>w2. ensureBinaryFileExists h w = Some (Exited 1, w2) \<and>
            console w2 =
              console w @ ?start @
              (if is_FetchError e'
               then [SpinnerFail ''Download toml-test binary failed'', ConsoleLog HELP_MESSAGE]
               else [ConsoleError e'])"
    if absent: "\<not> existsSync w (binaryFilePath h)"
      and run: "download h (print w ?start) = Some (Inl e', v')" for e' v'
  proof -
    from download_console [OF run] have "console v' = console w @ ?start" by simp
    with absent run show ?thesis
      by (simp add: ensureBinaryFileExists_def Let_def unlink_snd)
  qed
  have status: "\<exists>w2. ensureBinaryFileExists h w = Some (Exited 1, w2) \<and>
            console w2 =
              console w @ [SpinnerStart ''Downloading toml-test binary'',
                           ConsoleError (Error (''status: '' @ show_nat (status res)))]"
    if absent: "\<not> existsSync w (binaryFilePath h)" and u: "url h = Inr u"
      and chain: "redirect_chain h n u (requests w) = Some (res, hops)" and bad: "\<not> ok res"
  proof -
    from chain have "redirect_chain h n u (requests (print w ?start)) = Some (res, hops)"
      by simp
    from report [OF absent download_status_failure [OF u this bad]] show ?thesis
      by (simp add: is_FetchError_def)
  qed
  from report status show ?thesis by blast
qed

theorem failure_report_witness:
  "(\<exists>w2. ensureBinaryFileExists offline_host example_world = Some (Exited 1, w2) \<and>
          console w2 =
            [SpinnerStart ''Downloading toml-test binary'',
             SpinnerFail ''Download toml-test binary failed'', ConsoleLog HELP_MESSAGE])
   \<and> (\<exists>w2. ensureBinaryFileExists arm_host example_world = Some (Exited 1, w2) \<and>
          console w2 =
            [SpinnerStart ''Downloading toml-test binary'', ConsoleError (Error ''status: 404'')])"
proof -
  have absent: "\<not> existsSync example_world (binaryFilePath offline_host)"
    by (simp add: resolver_eval fs_eval example_eval host_eval)
  have run: "download offline_host (print example_world [SpinnerStart ''Downloading toml-test binary'']) =
     Some (Inl (FetchError ''request failed, reason: connect ECONNREFUSED''),
           spinner_started\<lparr>requests := [\<lparr>req_href = href github_url, req_agent = None\<rparr>]\<rparr>)"
    using offline_download by (simp add: spinner_started_def)
  note T1 = failure_report [where w = example_world and h = offline_host
      and e = "FetchError ''request failed, reason: connect ECONNREFUSED''"
      and v = "spinner_started\<lparr>requests := [\<lparr>req_href = href github_url, req_agent = None\<rparr>]\<rparr>"]
  from T1 absent run have 1:
    "\<exists>w2. ensureBinaryFileExists offline_host example_world = Some (Exited 1, w2) \<and>
          console w2 =
            [SpinnerStart ''Downloading toml-test binary'',
             SpinnerFail ''Download toml-test binary failed'', ConsoleLog HELP_MESSAGE]"
    by (simp add: is_FetchError_def example_world_def)
  have chain: "\<not> existsSync example_world (binaryFilePath arm_host) \<and> url arm_host = Inr arm_url \<and>
      redirect_chain arm_host 0 arm_url (requests example_world) = Some (not_found, [(arm_url, None)]) \<and>
      \<not> ok not_found"
    using arm_url arm_chain
    by (simp add: example_world_def ok_def not_found_def)
       (simp add: resolver_eval fs_eval example_eval host_eval)
  note T2 = failure_report [where h = arm_host and u = arm_url and n = 0 and w = example_world
      and res = not_found and hops = "[(arm_url, None)]"]
  from T2 chain have 2:
    "\<exists>w2. ensureBinaryFileExists arm_host example_world = Some (Exited 1, w2) \<and>
          console w2 =
            [SpinnerStart ''Downloading toml-test binary'', ConsoleError (Error ''status: 404'')]"
    by (simp add: not_found_def show_nat.simps digit_char_def example_world_def)
  from 1 2 show ?thesis by blast
qed

text \<open>
  The claim as the specification words it has the hints printed for a non-success status.
  A 404 prints the raw error and nothing else.
\<close>

theorem status_failure_prints_no_hints_counterexample:
  "ensureBinaryFileExists arm_host example_world =
     Some (Exited 1,
           example_world
             \<lparr>requests := [\<lparr>req_href = href arm_url, req_agent = None\<rparr>],
              console := [SpinnerStart ''Downloading toml-test binary'',
                          ConsoleError (Error ''status: 404'')]\<rparr>)"
proof -
  have "redirect_chain arm_host 0 arm_url (requests spinner_started) = Some (not_found, [(arm_url, None)])"
    using arm_chain by (simp add: host_eval example_world_def)
  from download_status_failure [OF arm_url this]
  have "download arm_host spinner_started =
          Some (Inl (Error ''status: 404''),
                spinner_started\<lparr>requests := [mk_request arm_url None]\<rparr>)"
    by (simp add: ok_def not_found_def show_nat.simps digit_char_def spinner_started_def
        example_world_def hop_request_def)
  then show ?thesis
    by (simp add: ensureBinaryFileExists_def spinner_started_def [symmetric])
       (simp add: resolver_eval agent_eval fs_eval example_eval host_eval is_FetchError_def Let_def)
qed

text \<open>
  Claim C6. When the download fails, \<open>ensureBinaryFileExists\<close> unlinks the binary file and
  the compressed file, ignoring the errors of the unlinks, and exits with status 1: a file
  whose unlink the system does not refuse is gone, no other file is touched, and the exit
  status does not depend on whether the unlinks succeed.
\<close>

theorem acquisition_failure_cleanup:
  assumes "\<not> existsSync w (binaryFilePath h)"
    and "download h (print w [SpinnerStart ''Downloading toml-test binary'']) = Some (Inl e, w1)"
  shows "\<exists>w2. ensureBinaryFileExists h w = Some (Exited 1, w2) \<and>
           (io_error h (Unlink (binaryFilePath h)) = None \<longrightarrow> files w2 (binaryFilePath h) = None) \<and>
           (io_error h (Unlink (compressedFilePath h)) = None \<longrightarrow>
              files w2 (compressedFilePath h) = None) \<and>
           (\<forall>p. files w2 p = files w1 p \<or>
                (p = binaryFilePath h \<or> p = compressedFilePath h) \<and> files w2 p = None) \<and>
           dirs w2 = dirs w1"
  using assms
  by (auto simp: ensureBinaryFileExists_def Let_def unlink_snd)

theorem acquisition_failure_cleanup_witness:
  "download corrupt_host spinner_started =
     Some (Inl (ZlibError ''unexpected end of file''), corrupt_partial)
   \<and> files corrupt_partial (binaryFilePath corrupt_host) = Some \<lparr>content = ''EL'', mode = 420\<rparr>
   \<and> files corrupt_partial (compressedFilePath corrupt_host) =
       Some \<lparr>content = ''gzELF'', mode = 420\<rparr>
   \<and> (\<exists>w2. ensureBinaryFileExists corrupt_host example_world = Some (Exited 1, w2) \<and>
         files w2 (binaryFilePath corrupt_host) = None \<and>
         files w2 (compressedFilePath corrupt_host) = None)"
proof -
  have absent: "\<not> existsSync example_world (binaryFilePath corrupt_host)"
    by (simp add: resolver_eval fs_eval example_eval host_eval)
  have run: "download corrupt_host (print example_world [SpinnerStart ''Downloading toml-test binary'']) =
               Some (Inl (ZlibError ''unexpected end of file''), corrupt_partial)"
    using corrupt_download by (simp add: spinner_started_def)
  have perm: "io_error corrupt_host (Unlink (binaryFilePath corrupt_host)) = None"
    "io_error corrupt_host (Unlink (compressedFilePath corrupt_host)) = None"
    by (simp_all add: example_eval host_eval)
  have before:
    "files corrupt_partial (binaryFilePath corrupt_host) = Some \<lparr>content = ''EL'', mode = 420\<rparr>"
    "files corrupt_partial (compressedFilePath corrupt_host) =
       Some \<lparr>content = ''gzELF'', mode = 420\<rparr>"
    by (simp_all add: resolver_eval example_eval host_eval corrupt_partial_def)
  from acquisition_failure_cleanup [OF absent run] perm obtain w2 where
    "ensureBinaryFileExists corrupt_host example_world = Some (Exited 1, w2)"
    "files w2 (binaryFilePath corrupt_host) = None"
    "files w2 (compressedFilePath corrupt_host) = None"
    by blast
  with corrupt_download before show ?thesis by blast
qed

section \<open>Cache manager: a successful acquisition\<close>

text \<open>
  Claim C5, as the code has it. After a successful acquisition the dist directory holds
  the binary file, and the compressed file is still there: the code unlinks it on the
  failure path only.
\<close>

theorem compressed_file_kept_after_success:
  assumes "\<not> existsSync w (binaryFilePath h)"
    and "ensureBinaryFileExists h w = Some (Returned, w')"
  shows "files w' (binaryFilePath h) \<noteq> None \<and> files w' (compressedFilePath h) \<noteq> None"
proof -
  let ?w0 = "print w [SpinnerStart ''Downloading toml-test binary'']"
  from assms obtain x wd where
    run: "download h ?w0 = Some (Inr x, wd)"
    and w': "w' = print wd [SpinnerSucceed ''Download tom-test binary success'']"
    by (auto simp: ensureBinaryFileExists_def Let_def split: option.splits sum.splits prod.splits)
  from download_success_stages [OF run] obtain u res w1 w2 w3 where
    "url h = Inr u" and "createFetch h u ?w0 = Some (Inr res, w1)" and
    pipe: "pipe_body h (ensureDistExists h w1) (compressedFilePath h) (body res) = (Inr (), w2)"
    and gunz: "decompress h w2 = (Inr (), w3)"
    and perm: "chmod h w3 (binaryFilePath h) 755 = (Inr (), wd)"
    by blast
  from pipe_body_written [OF pipe] have "files w2 (compressedFilePath h) \<noteq> None" .
  with decompress_frame [OF gunz, of "compressedFilePath h"]
  have "files w3 (compressedFilePath h) \<noteq> None" by blast
  with chmod_frame [OF perm, of "compressedFilePath h"]
  have gz: "files wd (compressedFilePath h) \<noteq> None" by blast
  from chmod_mode [OF perm] have bin: "files wd (binaryFilePath h) \<noteq> None" by auto
  from gz bin w' show ?thesis by simp
qed

theorem compressed_file_kept_after_success_witness:
  "ensureBinaryFileExists example_host example_world = Some (Returned, example_succeeded)
   \<and> files example_succeeded (binaryFilePath example_host) \<noteq> None
   \<and> files example_succeeded (compressedFilePath example_host) \<noteq> None"
proof -
  have absent: "\<not> existsSync example_world (binaryFilePath example_host)"
    by (simp add: resolver_eval fs_eval example_eval)
  from compressed_file_kept_after_success [OF absent example_ensure] example_ensure
  show ?thesis by blast
qed

text \<open>
  The claim as the specification words it has the compressed file gone after a successful
  acquisition. In the example run it is still present, with the bytes that were fetched.
\<close>

theorem compressed_file_removed_counterexample:
  "\<not> existsSync example_world (binaryFilePath example_host)
   \<and> ensureBinaryFileExists example_host example_world = Some (Returned, example_succeeded)
   \<and> files example_succeeded (compressedFilePath example_host) =
       Some \<lparr>content = ''gzELF'', mode = 420\<rparr>"
  using example_ensure
  by (simp add: resolver_eval fs_eval example_eval example_succeeded_def)

text \<open>
  Whenever the download succeeds, the mode of the binary file is the number the code
  passes to \<open>chmod\<close>: decimal 755.
\<close>

lemma download_sets_mode:
  assumes "download h w = Some (Inr x, w')"
  shows "\<exists>f. files w' (binaryFilePath h) = Some f \<and> mode f = 755"
proof -
  from download_success_stages [OF assms] obtain w3 where
    "chmod h w3 (binaryFilePath h) 755 = (Inr (), w')"
    by blast
  from chmod_mode [OF this] show ?thesis .
qed

text \<open>
  Claim C1 says that after a successful decompression the binary file has mode
  \<open>rwxr-xr-x\<close>, octal 755. The code calls \<open>chmod\<close> with the decimal literal 755, which is
  octal 1363: in the example run the file ends with that mode, whose permission bits are
  not \<open>rwxr-xr-x\<close> and which does not let the group execute the file.
\<close>

theorem chmod_mode_is_decimal_755:
  "download example_host example_world = Some (Inr (), example_installed)
   \<and> files example_installed (binaryFilePath example_host) =
       Some \<lparr>content = ''ELF'', mode = 755\<rparr>
   \<and> permission_bits 755 \<noteq> rwxr_xr_x
   \<and> \<not> group_may_execute 755"
  using example_download
  by (simp add: example_paths example_installed_def permission_bits_def rwxr_xr_x_def
      group_may_execute_def)

end
